theory Spec2Isabelle
  imports Main "HOL-Library.Word"
begin

unbundle bit_operations_syntax

section \<open>Values exchanged with the collaborators\<close>

type_synonym byte = "8 word"
type_synonym uint16 = "16 word"
type_synonym uint32 = "32 word"

text \<open>
  The five values of \<open>AuthorizeStat\<close>. Their declaration is in another file of the
  package; UpSession.go only compares them with \<open>==\<close> and \<open>!=\<close>.
\<close>

datatype AuthorizeStat =
  StatDisconnected | StatConnecting | StatConnected | StatSubScribed | StatAuthorized

text \<open>Go \<open>error\<close> values, by their origin.\<close>

datatype error =
  ErrConnectionClosed | ErrDial | ErrWrite | ErrEOF | ErrEncode | ErrDecode
  | ErrSyntax | ErrRange

text \<open>Run-time panics of Go that the code of UpSession.go can raise.\<close>

datatype panic = NilDereference | IndexOutOfRange | SliceBoundsOutOfRange

text \<open>
  How a call ends: it returns a value, it panics, or it blocks for ever (a send or a
  receive on a nil channel). Every operation on the session is a function from the
  session to an outcome and the session as the call left it: what was assigned before a
  panic stays assigned.
\<close>

datatype 'a outcome = Returns 'a | Panics panic | Blocks

definition returns :: "'a \<Rightarrow> 's \<Rightarrow> 'a outcome \<times> 's" where
  "returns x s = (Returns x, s)"

definition andThen ::
  "('s \<Rightarrow> 'a outcome \<times> 's) \<Rightarrow> ('a \<Rightarrow> 's \<Rightarrow> 'b outcome \<times> 's) \<Rightarrow> 's \<Rightarrow> 'b outcome \<times> 's" where
  "andThen m f s =
     (case m s of
        (Returns x, s') \<Rightarrow> f x s'
      | (Panics p, s') \<Rightarrow> (Panics p, s')
      | (Blocks, s') \<Rightarrow> (Blocks, s'))"

text \<open>
  A finite \<open>float64\<close>, the value \<open>m * 2 ^ e\<close> of a mantissa and an exponent.
  encoding/json gives a JSON number as a finite float64 (a number that overflows is a
  decode error), so NaN and the infinities are not values of a decoded response.
\<close>

datatype float64 = Float64 int int

text \<open>
  What encoding/json stores in an \<open>interface{}\<close>: nil, bool, float64, string,
  \<open>[]interface{}\<close> and \<open>map[string]interface{}\<close>.
\<close>

datatype json =
  JNull | JBool bool | JNumber float64 | JString string | JArray "json list"
  | JObject "string \<Rightarrow> json option"

text \<open>
  \<open>JSONRPCRequest\<close> and \<open>JSONRPCLine\<close> are declared in another file of the package.
  UpSession.go assigns \<open>ID\<close> and \<open>Method\<close> of a request and calls \<open>SetParam\<close>; it
  reads \<open>ID\<close>, \<open>Method\<close>, \<open>Params\<close>, \<open>Result\<close> and \<open>Error\<close> of a line.
\<close>

record JSONRPCRequest =
  reqID :: json
  reqMethod :: string
  reqParams :: "json list"

definition SetParam :: "json list \<Rightarrow> JSONRPCRequest \<Rightarrow> JSONRPCRequest" where
  "SetParam params request = request\<lparr>reqParams := params\<rparr>"

record JSONRPCLine =
  ID :: json
  Method :: string
  Params :: "json list"
  Result :: json
  Error :: json

record Pool =
  Host :: string
  Port :: nat

record Config =
  Pools :: "Pool list"
  SubmitResponseFromServer :: bool

text \<open>
  A \<open>net.Conn\<close>: the peer's address, the writes attempted so far, whether the k-th
  write fails, and whether \<open>Close\<close> was called.
\<close>

record conn =
  remoteAddr :: string
  writes :: "byte list list"
  writeFails :: "nat \<Rightarrow> bool"
  connClosed :: bool

record stratum_session =
  ssSessionID :: uint32

datatype event = EventAddStratumSession "stratum_session option" | OtherEvent

section \<open>The session\<close>

text \<open>
  Pointers and interfaces that can be nil are options. \<open>serverReader\<close> is the
  \<open>bufio.Reader\<close> on the connection: the bytes it will still deliver before the stream
  ends. \<open>eventChannel\<close> is nil or the reference of a channel; the events in a
  channel are not part of the struct.
\<close>

record up_session =
  manager :: "nat option"
  config :: "Config option"
  subAccount :: string
  poolIndex :: int
  stratumSessions :: "uint32 \<Rightarrow> stratum_session option"
  serverConn :: "conn option"
  serverReader :: "byte list option"
  stat :: AuthorizeStat
  sessionID :: uint32
  versionMask :: uint32
  extraNonce2Size :: int
  serverCapsVerRol :: bool
  serverCapsSubRes :: bool
  eventChannel :: "nat option"

text \<open>
  What UpSession.go takes from outside: the constant \<open>UpSessionUserAgent\<close>, the result
  of \<open>net.DialTimeout\<close> at an address (an error, or a connection and the bytes the peer
  sends on it), \<open>ToJSONBytesLine\<close> of a request, \<open>NewJSONRPCLine\<close> of a line, and
  the value of \<open>int(f)\<close> for a float64 outside the range of \<open>int\<close>, which Go leaves to
  the implementation.
\<close>

record env =
  userAgent :: string
  dial :: "string \<Rightarrow> error + conn \<times> byte list"
  toJSONBytesLine :: "JSONRPCRequest \<Rightarrow> error + byte list"
  newJSONRPCLine :: "byte list \<Rightarrow> error + JSONRPCLine"
  intOutOfRange :: "float64 \<Rightarrow> int"

text \<open>The magic number of an Ex-Message, 0x7F by the comment in \<open>initReadExMessage\<close>.\<close>

definition ExMessageMagicNumber :: byte where
  "ExMessageMagicNumber = 0x7F"

section \<open>Library functions the code calls\<close>

text \<open>\<open>fmt.Sprintf("%s:%d", host, port)\<close>.\<close>

fun decimal :: "nat \<Rightarrow> string" where
  "decimal n =
     (if n < 10 then [char_of (48 + n)]
      else decimal (n div 10) @ [char_of (48 + n mod 10)])"

definition Sprintf_addr :: "string \<Rightarrow> nat \<Rightarrow> string" where
  "Sprintf_addr host port = host @ '':'' @ decimal port"

text \<open>
  \<open>strconv.ParseUint(s, 16, 32)\<close>: the loop of the library over the bytes of \<open>s\<close>, with
  \<open>cutoff = maxUint64/16 + 1\<close> and \<open>maxVal = 1<<32 - 1\<close>. The empty string is a syntax
  error; base 16 is given, so no prefix and no underscore is accepted.
\<close>

definition lower :: "byte \<Rightarrow> byte" where
  "lower c = c OR 0x20"

definition digitOf :: "byte \<Rightarrow> nat option" where
  "digitOf c =
     (if 0x30 \<le> c \<and> c \<le> 0x39 then Some (unat (c - 0x30))
      else if 0x61 \<le> lower c \<and> lower c \<le> 0x7A then Some (unat (lower c - 0x61 + 10))
      else None)"

fun parseDigits :: "nat \<Rightarrow> byte list \<Rightarrow> error + nat" where
  "parseDigits n [] = Inr n"
| "parseDigits n (c # cs) =
     (case digitOf c of
        None \<Rightarrow> Inl ErrSyntax
      | Some d \<Rightarrow>
          if d \<ge> 16 then Inl ErrSyntax
          else if n \<ge> (2 ^ 64 - 1) div 16 + 1 then Inl ErrRange
          else if n * 16 + d > 2 ^ 32 - 1 then Inl ErrRange
          else parseDigits (n * 16 + d) cs)"

definition ParseUint_16_32 :: "string \<Rightarrow> error + nat" where
  "ParseUint_16_32 s = (if s = [] then Inl ErrSyntax else parseDigits 0 (map of_char s))"

text \<open>
  The conversion \<open>int(f)\<close> of a float64, with \<open>int\<close> of 64 bits: the fraction is
  discarded (truncation towards zero); outside the range of \<open>int\<close> the result is the
  implementation's.
\<close>

fun truncate :: "float64 \<Rightarrow> int" where
  "truncate (Float64 m e) =
     (if 0 \<le> e then m * 2 ^ nat e else sgn m * (\<bar>m\<bar> div 2 ^ nat (- e)))"

definition int_of_float64 :: "env \<Rightarrow> float64 \<Rightarrow> int" where
  "int_of_float64 env f =
     (if - (2 ^ 63) \<le> truncate f \<and> truncate f < 2 ^ 63 then truncate f
      else intOutOfRange env f)"

text \<open>
  \<open>bufio.Reader\<close> on the bytes still to come. \<open>Peek(n)\<close> returns the next bytes without
  consuming them; \<open>ReadBytes(delim)\<close> reads up to and including the first \<open>delim\<close>;
  \<open>Discard(n)\<close> skips \<open>n\<close> bytes. Each returns what there was and an error when the
  stream ends first.
\<close>

definition Peek :: "nat \<Rightarrow> byte list \<Rightarrow> byte list \<times> error option" where
  "Peek n buf = (take n buf, if length buf < n then Some ErrEOF else None)"

definition ReadBytes :: "byte \<Rightarrow> byte list \<Rightarrow> (byte list \<times> error option) \<times> byte list" where
  "ReadBytes delim buf =
     (if delim \<in> set buf
      then ((takeWhile (\<lambda>b. b \<noteq> delim) buf @ [delim], None),
            tl (dropWhile (\<lambda>b. b \<noteq> delim) buf))
      else ((buf, Some ErrEOF), []))"

definition Discard :: "nat \<Rightarrow> byte list \<Rightarrow> (nat \<times> error option) \<times> byte list" where
  "Discard n buf =
     (if n \<le> length buf then ((n, None), drop n buf)
      else ((length buf, Some ErrEOF), []))"

text \<open>\<open>binary.LittleEndian.Uint16(b)\<close>: it reads \<open>b[1]\<close> first, which panics on a short slice.\<close>

definition Uint16 :: "byte list \<Rightarrow> uint16 outcome" where
  "Uint16 b =
     (if length b < 2 then Panics IndexOutOfRange
      else Returns (ucast (b ! 0) OR push_bit 8 (ucast (b ! 1))))"

text \<open>\<open>Write\<close> of the connection: the attempt is recorded; the k-th attempt fails when the
  connection says so, and then nothing counts as written.\<close>

definition Write :: "byte list \<Rightarrow> conn \<Rightarrow> (nat \<times> error option) \<times> conn" where
  "Write bytes c =
     (if writeFails c (length (writes c))
      then ((0, Some ErrWrite), c\<lparr>writes := writes c @ [bytes]\<rparr>)
      else ((length bytes, None), c\<lparr>writes := writes c @ [bytes]\<rparr>))"

section \<open>UpSession.go\<close>

definition NewUpSession :: "nat option \<Rightarrow> Config option \<Rightarrow> string \<Rightarrow> int \<Rightarrow> up_session" where
  "NewUpSession manager' config' subAccount' poolIndex' =
     \<lparr>manager = manager', config = config', subAccount = subAccount',
      poolIndex = poolIndex', stratumSessions = Map.empty,
      serverConn = None, serverReader = None, stat = StatDisconnected,
      sessionID = 0, versionMask = 0, extraNonce2Size = 0,
      serverCapsVerRol = False, serverCapsSubRes = False, eventChannel = None\<rparr>"

text \<open>\<open>up.config.Pools[up.poolIndex]\<close>: a nil config and an index out of range panic.\<close>

definition configuredPool :: "up_session \<Rightarrow> Pool outcome" where
  "configuredPool up =
     (case config up of
        None \<Rightarrow> Panics NilDereference
      | Some cfg \<Rightarrow>
          if poolIndex up < 0 \<or> int (length (Pools cfg)) \<le> poolIndex up
          then Panics IndexOutOfRange
          else Returns (Pools cfg ! nat (poolIndex up)))"

definition connect :: "env \<Rightarrow> up_session \<Rightarrow> error option outcome \<times> up_session" where
  "connect env up0 =
     (let up = up0\<lparr>stat := StatConnecting\<rparr> in
      case configuredPool up of
        Panics p \<Rightarrow> (Panics p, up)
      | Blocks \<Rightarrow> (Blocks, up)
      | Returns pool \<Rightarrow>
          (let url = Sprintf_addr (Host pool) (Port pool) in
           case dial env url of
             Inl err \<Rightarrow> (Returns (Some err), up\<lparr>serverConn := None, stat := StatDisconnected\<rparr>)
           | Inr (c, stream) \<Rightarrow>
               (Returns None,
                up\<lparr>serverConn := Some c, serverReader := Some stream,
                   stat := StatConnected\<rparr>)))"

definition writeJSONRequestToServer ::
  "env \<Rightarrow> JSONRPCRequest \<Rightarrow> up_session \<Rightarrow> (nat \<times> error option) outcome \<times> up_session" where
  "writeJSONRequestToServer env jsonData up =
     (if stat up = StatConnecting \<or> stat up = StatDisconnected
      then (Returns (0, Some ErrConnectionClosed), up)
      else
        case toJSONBytesLine env jsonData of
          Inl err \<Rightarrow> (Returns (0, Some err), up)
        | Inr bytes \<Rightarrow>
            (case serverConn up of
               None \<Rightarrow> (Panics NilDereference, up)
             | Some c \<Rightarrow>
                 (let (r, c') = Write bytes c in (Returns r, up\<lparr>serverConn := Some c'\<rparr>))))"

definition initSendRequest :: "env \<Rightarrow> up_session \<Rightarrow> error option outcome \<times> up_session" where
  "initSendRequest env =
     (let err = (None :: error option);
          request = \<lparr>reqID = JNull, reqMethod = [], reqParams = []\<rparr>;
          request1 = SetParam [JString (userAgent env)]
            (request\<lparr>reqID := JString ''sub'', reqMethod := ''mining.subscribe''\<rparr>);
          request2 = SetParam
            [JArray [JString ''version-rolling''],
             JObject [''version-rolling.mask'' \<mapsto> JString ''ffffffff'',
                      ''version-rolling.min-bit-count'' \<mapsto> JNumber (Float64 0 0)]]
            (request1\<lparr>reqID := JString ''conf'', reqMethod := ''mining.configure''\<rparr>);
          request3 = SetParam [JArray [JString ''verrol'']]
            (request2\<lparr>reqID := JString ''caps'', reqMethod := ''agent.get_capabilities''\<rparr>)
      in
      andThen (writeJSONRequestToServer env request1) (\<lambda>_.
        if err \<noteq> None then returns err
        else andThen (writeJSONRequestToServer env request2) (\<lambda>_.
          if err \<noteq> None then returns err
          else andThen (writeJSONRequestToServer env request3) (\<lambda>_.
            if err \<noteq> None then returns err
            else (\<lambda>up.
              andThen
                (writeJSONRequestToServer env
                   (SetParam [JString (subAccount up), JString []]
                      (request3\<lparr>reqID := JString ''auth'', reqMethod := ''mining.authorize''\<rparr>)))
                (\<lambda>_. if err \<noteq> None then returns err else returns err) up)))))"

definition close :: "up_session \<Rightarrow> unit outcome \<times> up_session" where
  "close up0 =
     (let up = up0\<lparr>stat := StatDisconnected\<rparr> in
      case serverConn up of
        None \<Rightarrow> (Panics NilDereference, up)
      | Some c \<Rightarrow> (Returns (), up\<lparr>serverConn := Some (c\<lparr>connClosed := True\<rparr>)\<rparr>))"

definition IP :: "up_session \<Rightarrow> string outcome" where
  "IP up =
     (case serverConn up of
        None \<Rightarrow>
          (case configuredPool up of
             Returns pool \<Rightarrow> Returns (Sprintf_addr (Host pool) (Port pool))
           | Panics p \<Rightarrow> Panics p
           | Blocks \<Rightarrow> Blocks)
      | Some c \<Rightarrow> Returns (remoteAddr c))"

text \<open>
  A call of glog with \<open>up.IP()\<close> among its arguments: the argument is evaluated, which
  can panic; the line written to the log is not part of the session.
\<close>

definition glog_IP :: "up_session \<Rightarrow> unit outcome \<times> up_session" where
  "glog_IP up =
     (case IP up of
        Returns _ \<Rightarrow> (Returns (), up)
      | Panics p \<Rightarrow> (Panics p, up)
      | Blocks \<Rightarrow> (Blocks, up))"

definition handleSetVersionMask ::
  "JSONRPCLine \<Rightarrow> byte list \<Rightarrow> up_session \<Rightarrow> unit outcome \<times> up_session" where
  "handleSetVersionMask rpcData jsonBytes up =
     (if length (Params rpcData) > 0 then
        (case Params rpcData ! 0 of
           JString versionMaskHex \<Rightarrow>
             (case ParseUint_16_32 versionMaskHex of
                Inl err \<Rightarrow> glog_IP up
              | Inr versionMask' \<Rightarrow> glog_IP (up\<lparr>versionMask := of_nat versionMask'\<rparr>))
         | _ \<Rightarrow> glog_IP up)
      else (Returns (), up))"

definition handleSubScribeResponse ::
  "env \<Rightarrow> JSONRPCLine \<Rightarrow> byte list \<Rightarrow> up_session \<Rightarrow> unit outcome \<times> up_session" where
  "handleSubScribeResponse env rpcData jsonBytes up =
     (case Result rpcData of
        JArray result \<Rightarrow>
          if length result < 3 then andThen glog_IP (\<lambda>_. close) up
          else
            (case result ! 1 of
               JString sessionIDHex \<Rightarrow>
                 (case ParseUint_16_32 sessionIDHex of
                    Inl err \<Rightarrow> andThen glog_IP (\<lambda>_. close) up
                  | Inr sessionID' \<Rightarrow>
                      (let up1 = up\<lparr>sessionID := of_nat sessionID'\<rparr> in
                       case result ! 2 of
                         JNumber extraNonce2SizeFloat \<Rightarrow>
                           (let up2 = up1\<lparr>extraNonce2Size :=
                                  int_of_float64 env extraNonce2SizeFloat\<rparr> in
                            if extraNonce2Size up2 < 6
                            then andThen glog_IP (\<lambda>_. close) up2
                            else (Returns (), up2\<lparr>stat := StatSubScribed\<rparr>))
                       | _ \<Rightarrow> andThen glog_IP (\<lambda>_. close) up1))
             | _ \<Rightarrow> andThen glog_IP (\<lambda>_. close) up)
      | _ \<Rightarrow> andThen glog_IP (\<lambda>_. close) up)"

definition handleConfigureResponse ::
  "JSONRPCLine \<Rightarrow> byte list \<Rightarrow> up_session \<Rightarrow> unit outcome \<times> up_session" where
  "handleConfigureResponse rpcData jsonBytes up = (Returns (), up)"

text \<open>One turn of the loop over \<open>capsArr\<close>: the \<open>switch\<close> on a capability.\<close>

definition setCapability :: "up_session \<Rightarrow> json \<Rightarrow> up_session" where
  "setCapability up capability =
     (if capability = JString ''verrol'' then up\<lparr>serverCapsVerRol := True\<rparr>
      else if capability = JString ''subres'' then up\<lparr>serverCapsSubRes := True\<rparr>
      else up)"

definition handleGetCapsResponse ::
  "JSONRPCLine \<Rightarrow> byte list \<Rightarrow> up_session \<Rightarrow> unit outcome \<times> up_session" where
  "handleGetCapsResponse rpcData jsonBytes =
     (let (result, ok1) =
            (case Result rpcData of JObject m \<Rightarrow> (m, True) | _ \<Rightarrow> (Map.empty, False));
          (caps, ok2) =
            (case result ''capabilities'' of Some v \<Rightarrow> (v, True) | None \<Rightarrow> (JNull, False));
          (capsArr, ok3) =
            (case caps of JArray a \<Rightarrow> (a, True) | _ \<Rightarrow> ([], False))
      in
      andThen (if \<not> ok1 then glog_IP else returns ()) (\<lambda>_.
      andThen (if \<not> ok2 then glog_IP else returns ()) (\<lambda>_.
      andThen (if \<not> ok3 then glog_IP else returns ()) (\<lambda>_.
      andThen (\<lambda>up. (Returns (), foldl setCapability up capsArr)) (\<lambda>_.
      andThen (\<lambda>up. if \<not> serverCapsVerRol up then glog_IP up else returns () up) (\<lambda>_ up.
        case config up of
          None \<Rightarrow> (Panics NilDereference, up)
        | Some cfg \<Rightarrow>
            if SubmitResponseFromServer cfg \<and> \<not> serverCapsSubRes up
            then (Returns (), up)
            else (Returns (), up)))))))"

definition handleAuthorizeResponse ::
  "JSONRPCLine \<Rightarrow> byte list \<Rightarrow> up_session \<Rightarrow> unit outcome \<times> up_session" where
  "handleAuthorizeResponse rpcData jsonBytes up =
     (let (result, ok) = (case Result rpcData of JBool b \<Rightarrow> (b, True) | _ \<Rightarrow> (False, False)) in
      if \<not> ok \<or> \<not> result then andThen glog_IP (\<lambda>_. close) up
      else andThen glog_IP (\<lambda>_ up'. (Returns (), up'\<lparr>stat := StatAuthorized\<rparr>)) up)"

definition initReadExMessage :: "up_session \<Rightarrow> unit outcome \<times> up_session" where
  "initReadExMessage up =
     (case serverReader up of
        None \<Rightarrow> (Panics NilDereference, up)
      | Some buf \<Rightarrow>
          (let ((header, err), rest) = ReadBytes 4 buf;
               up1 = up\<lparr>serverReader := Some rest\<rparr>
           in
           if err \<noteq> None then andThen glog_IP (\<lambda>_. close) up1
           else if length header < 2 then (Panics SliceBoundsOutOfRange, up1)
           else
             (case Uint16 (drop 2 header) of
                Panics p \<Rightarrow> (Panics p, up1)
              | Blocks \<Rightarrow> (Blocks, up1)
              | Returns len \<Rightarrow>
                  if len < 4 then andThen glog_IP (\<lambda>_. close) up1
                  else
                    (let len' = len - 4 in
                     if len' > 0 then
                       (let ((n, err'), rest') = Discard (unat len') rest;
                            up2 = up1\<lparr>serverReader := Some rest'\<rparr>
                        in
                        if err' \<noteq> None then andThen glog_IP (\<lambda>_. close) up2
                        else (Returns (), up2))
                     else (Returns (), up1)))))"

definition initReadLine :: "env \<Rightarrow> up_session \<Rightarrow> unit outcome \<times> up_session" where
  "initReadLine env up =
     (case serverReader up of
        None \<Rightarrow> (Panics NilDereference, up)
      | Some buf \<Rightarrow>
          (let ((jsonBytes, err), rest) = ReadBytes 0x0A buf;
               up1 = up\<lparr>serverReader := Some rest\<rparr>
           in
           if err \<noteq> None then andThen glog_IP (\<lambda>_. close) up1
           else
             (case newJSONRPCLine env jsonBytes of
                Inl err' \<Rightarrow> glog_IP up1
              | Inr rpcData \<Rightarrow>
                  if length (Method rpcData) > 0 then
                    (if Method rpcData = ''mining.set_version_mask''
                     then handleSetVersionMask rpcData jsonBytes up1
                     else (Returns (), up1))
                  else if ID rpcData = JString ''sub''
                    then handleSubScribeResponse env rpcData jsonBytes up1
                  else if ID rpcData = JString ''conf''
                    then handleConfigureResponse rpcData jsonBytes up1
                  else if ID rpcData = JString ''caps''
                    then handleGetCapsResponse rpcData jsonBytes up1
                  else if ID rpcData = JString ''auth''
                    then handleAuthorizeResponse rpcData jsonBytes up1
                  else (Returns (), up1))))"

definition initHandleResponse :: "env \<Rightarrow> up_session \<Rightarrow> unit outcome \<times> up_session" where
  "initHandleResponse env up =
     (case serverReader up of
        None \<Rightarrow> (Panics NilDereference, up)
      | Some buf \<Rightarrow>
          (let (magicNum, err) = Peek 1 buf in
           if err \<noteq> None then andThen glog_IP (\<lambda>_. close) up
           else if magicNum ! 0 = ExMessageMagicNumber then initReadExMessage up
           else initReadLine env up))"

text \<open>The condition of the loop of \<open>Init\<close>, and the bytes its reader still holds.\<close>

definition handshaking :: "up_session \<Rightarrow> bool" where
  "handshaking up =
     (stat up \<noteq> StatAuthorized \<and> stat up \<noteq> StatDisconnected \<and> stat up \<noteq> StatConnecting)"

definition pending :: "up_session \<Rightarrow> nat" where
  "pending up = (case serverReader up of None \<Rightarrow> 0 | Some buf \<Rightarrow> length buf)"

text \<open>
  The loop of \<open>Init\<close>: \<open>for up.stat != StatAuthorized && up.stat != StatDisconnected &&
  up.stat != StatConnecting { up.initHandleResponse() }\<close>. A panic of the body ends it.
\<close>

function initLoop :: "env \<Rightarrow> up_session \<Rightarrow> unit outcome \<times> up_session" where
  "initLoop env up =
     (if handshaking up then
        (case initHandleResponse env up of
           (Returns _, up') \<Rightarrow> initLoop env up'
         | (Panics p, up') \<Rightarrow> (Panics p, up')
         | (Blocks, up') \<Rightarrow> (Blocks, up'))
      else (Returns (), up))"
  by pat_completeness auto

definition Init :: "env \<Rightarrow> up_session \<Rightarrow> unit outcome \<times> up_session" where
  "Init env =
     andThen (connect env) (\<lambda>err.
       if err \<noteq> None then glog_IP
       else andThen (initSendRequest env) (\<lambda>err'.
         if err' \<noteq> None then andThen glog_IP (\<lambda>_. close)
         else initLoop env))"

text \<open>
  The event channel. A send or a receive on a nil channel blocks for ever. A send on a
  channel that is not nil hands the event over; when it proceeds is a matter of the
  receiver and is not modelled. \<open>handleEvent\<close> takes the events its channel delivers,
  in order, and waits for the next one when they are used up. \<open>addStratumSession\<close>
  also calls \<open>SetUpSession\<close> of the downstream session, which writes no field of the
  \<open>UpSession\<close>.
\<close>

definition SendEvent :: "event \<Rightarrow> up_session \<Rightarrow> unit outcome \<times> up_session" where
  "SendEvent event up =
     (case eventChannel up of
        None \<Rightarrow> (Blocks, up)
      | Some ch \<Rightarrow> (Returns (), up))"

definition AddStratumSession ::
  "stratum_session option \<Rightarrow> up_session \<Rightarrow> unit outcome \<times> up_session" where
  "AddStratumSession session = SendEvent (EventAddStratumSession session)"

definition addStratumSession ::
  "stratum_session option \<Rightarrow> up_session \<Rightarrow> unit outcome \<times> up_session" where
  "addStratumSession session up =
     (case session of
        None \<Rightarrow> (Panics NilDereference, up)
      | Some s \<Rightarrow> (Returns (), up\<lparr>stratumSessions := (stratumSessions up)(ssSessionID s \<mapsto> s)\<rparr>))"

fun handleDelivered :: "event list \<Rightarrow> up_session \<Rightarrow> unit outcome \<times> up_session" where
  "handleDelivered [] up = (Blocks, up)"
| "handleDelivered (EventAddStratumSession session # events) up =
     andThen (addStratumSession session) (\<lambda>_. handleDelivered events) up"
| "handleDelivered (OtherEvent # events) up = handleDelivered events up"

definition handleEvent :: "event list \<Rightarrow> up_session \<Rightarrow> unit outcome \<times> up_session" where
  "handleEvent events up =
     (case eventChannel up of
        None \<Rightarrow> (Blocks, up)
      | Some ch \<Rightarrow> handleDelivered events up)"

definition Run :: "event list \<Rightarrow> up_session \<Rightarrow> unit outcome \<times> up_session" where
  "Run events = handleEvent events"

text \<open>
  The sessions that the operations of UpSession.go can produce from a new one, with any
  arguments and in any environment.
\<close>

inductive_set reachable :: "up_session set" where
  new: "NewUpSession manager' config' subAccount' poolIndex' \<in> reachable"
| connect: "up \<in> reachable \<Longrightarrow> snd (connect env up) \<in> reachable"
| writeJSONRequestToServer:
    "up \<in> reachable \<Longrightarrow> snd (writeJSONRequestToServer env request up) \<in> reachable"
| initSendRequest: "up \<in> reachable \<Longrightarrow> snd (initSendRequest env up) \<in> reachable"
| close: "up \<in> reachable \<Longrightarrow> snd (close up) \<in> reachable"
| initHandleResponse: "up \<in> reachable \<Longrightarrow> snd (initHandleResponse env up) \<in> reachable"
| initReadExMessage: "up \<in> reachable \<Longrightarrow> snd (initReadExMessage up) \<in> reachable"
| initReadLine: "up \<in> reachable \<Longrightarrow> snd (initReadLine env up) \<in> reachable"
| Init: "up \<in> reachable \<Longrightarrow> snd (Init env up) \<in> reachable"
| handleSetVersionMask:
    "up \<in> reachable \<Longrightarrow> snd (handleSetVersionMask rpcData jsonBytes up) \<in> reachable"
| handleSubScribeResponse:
    "up \<in> reachable \<Longrightarrow> snd (handleSubScribeResponse env rpcData jsonBytes up) \<in> reachable"
| handleConfigureResponse:
    "up \<in> reachable \<Longrightarrow> snd (handleConfigureResponse rpcData jsonBytes up) \<in> reachable"
| handleGetCapsResponse:
    "up \<in> reachable \<Longrightarrow> snd (handleGetCapsResponse rpcData jsonBytes up) \<in> reachable"
| handleAuthorizeResponse:
    "up \<in> reachable \<Longrightarrow> snd (handleAuthorizeResponse rpcData jsonBytes up) \<in> reachable"
| Run: "up \<in> reachable \<Longrightarrow> snd (Run events up) \<in> reachable"
| SendEvent: "up \<in> reachable \<Longrightarrow> snd (SendEvent event up) \<in> reachable"
| AddStratumSession: "up \<in> reachable \<Longrightarrow> snd (AddStratumSession session up) \<in> reachable"
| addStratumSession: "up \<in> reachable \<Longrightarrow> snd (addStratumSession session up) \<in> reachable"
| handleEvent: "up \<in> reachable \<Longrightarrow> snd (handleEvent events up) \<in> reachable"

section \<open>Inputs for the examples\<close>

text \<open>
  A connection whose writes succeed, one whose writes all fail, a configuration with one
  pool, a session as \<open>connect\<close> leaves it on success, and a response line.
\<close>

definition example_conn :: conn where
  "example_conn =
     \<lparr>remoteAddr = ''10.0.0.1:3333'', writes = [], writeFails = (\<lambda>k. False),
      connClosed = False\<rparr>"

definition broken_conn :: conn where
  "broken_conn = example_conn\<lparr>writeFails := (\<lambda>k. True)\<rparr>"

definition example_config :: Config where
  "example_config =
     \<lparr>Pools = [\<lparr>Host = ''pool.example'', Port = 3333\<rparr>], SubmitResponseFromServer = False\<rparr>"

definition new_session :: up_session where
  "new_session = NewUpSession (Some 0) (Some example_config) ''account'' 0"

definition example_session :: up_session where
  "example_session =
     new_session\<lparr>serverConn := Some example_conn, serverReader := Some [],
                 stat := StatConnected\<rparr>"

definition response :: "json \<Rightarrow> json \<Rightarrow> JSONRPCLine" where
  "response id' result = \<lparr>ID = id', Method = [], Params = [], Result = result, Error = JNull\<rparr>"

text \<open>The bytes of the line \<open>{"id":"auth","result":true}\<close> and of the line \<open>{{\<close>.\<close>

definition auth_line :: "byte list" where
  "auth_line =
     [0x7B, 0x22, 0x69, 0x64, 0x22, 0x3A, 0x22, 0x61, 0x75, 0x74, 0x68, 0x22, 0x2C,
      0x22, 0x72, 0x65, 0x73, 0x75, 0x6C, 0x74, 0x22, 0x3A, 0x74, 0x72, 0x75, 0x65,
      0x7D, 0x0A]"

definition broken_line :: "byte list" where
  "broken_line = [0x7B, 0x7B, 0x0A]"

text \<open>
  An environment: the dial reaches a peer that sends the given bytes over the given
  connection; the decoder knows \<open>auth_line\<close> and rejects every other line.
\<close>

definition example_env :: "conn \<Rightarrow> byte list \<Rightarrow> env" where
  "example_env c stream =
     \<lparr>userAgent = ''btccom-agent'',
      dial = (\<lambda>url. Inr (c, stream)),
      toJSONBytesLine = (\<lambda>request. Inr []),
      newJSONRPCLine =
        (\<lambda>line. if line = auth_line then Inr (response (JString ''auth'') (JBool True))
                else Inl ErrDecode),
      intOutOfRange = (\<lambda>f. - (2 ^ 63))\<rparr>"

section \<open>How the operations treat the fields of the session\<close>

lemma glog_IP_state: "snd (glog_IP up) = up"
  by (simp add: glog_IP_def split: outcome.splits)

lemma andThen_snd:
  assumes "\<And>s. g (snd (m s)) = g s" and "\<And>x s. g (snd (f x s)) = g s"
  shows "g (snd (andThen m f s)) = g s"
proof (cases "m s")
  case (Pair r s')
  with assms(1) [of s] have "g s' = g s" by simp
  with Pair assms(2) show ?thesis
    by (cases r) (simp_all add: andThen_def)
qed

lemma close_reader: "serverReader (snd (close up)) = serverReader up"
  by (simp add: close_def Let_def split: option.splits)

lemma close_Returns: "close up = (Returns x, up') \<Longrightarrow> stat up' = StatDisconnected"
  by (auto simp: close_def Let_def split: option.splits)

lemma logclose_reader:
  "serverReader (snd (andThen glog_IP (\<lambda>_. close) up)) = serverReader up"
  by (rule andThen_snd) (simp_all add: glog_IP_state close_reader)

lemma logclose_Returns:
  "andThen glog_IP (\<lambda>_. close) up = (Returns x, up') \<Longrightarrow> stat up' = StatDisconnected"
  by (auto simp: andThen_def glog_IP_def split: outcome.splits prod.splits dest: close_Returns)

lemma dropWhile_tl_shorter:
  assumes "d \<in> set buf"
  shows "length (tl (dropWhile (\<lambda>b. b \<noteq> d) buf)) < length buf"
proof -
  from assms have "dropWhile (\<lambda>b. b \<noteq> d) buf \<noteq> []"
    by auto
  then have "length (tl (dropWhile (\<lambda>b. b \<noteq> d) buf)) < length (dropWhile (\<lambda>b. b \<noteq> d) buf)"
    by simp
  also have "\<dots> \<le> length buf"
    by (rule length_dropWhile_le)
  finally show ?thesis .
qed

lemma ReadBytes_shorter:
  "ReadBytes d buf = ((x, None), rest) \<Longrightarrow> length rest < length buf"
  using dropWhile_tl_shorter [of d buf]
  by (auto simp: ReadBytes_def split: if_splits simp del: length_tl)

lemma Discard_shorter:
  "Discard n buf = (r, rest) \<Longrightarrow> length rest \<le> length buf"
  by (auto simp: Discard_def split: if_splits)

lemma handleSetVersionMask_reader:
  "serverReader (snd (handleSetVersionMask rpcData jsonBytes up)) = serverReader up"
  by (simp add: handleSetVersionMask_def glog_IP_state split: json.splits sum.splits)

lemma handleSubScribeResponse_reader:
  "serverReader (snd (handleSubScribeResponse env rpcData jsonBytes up)) = serverReader up"
  by (simp add: handleSubScribeResponse_def Let_def logclose_reader
      split: json.splits sum.splits)

lemma foldl_setCapability_reader:
  "serverReader (foldl setCapability up capsArr) = serverReader up"
  by (induction capsArr arbitrary: up) (simp_all add: setCapability_def)

lemma handleGetCapsResponse_reader:
  "serverReader (snd (handleGetCapsResponse rpcData jsonBytes up)) = serverReader up"
  unfolding handleGetCapsResponse_def Let_def
  by (auto split: prod.splits option.splits
      intro!: andThen_snd simp: glog_IP_state returns_def foldl_setCapability_reader)

lemma handleAuthorizeResponse_reader:
  "serverReader (snd (handleAuthorizeResponse rpcData jsonBytes up)) = serverReader up"
  unfolding handleAuthorizeResponse_def Let_def
  by (auto split: prod.splits intro!: andThen_snd simp: glog_IP_state close_reader)

lemma initReadExMessage_progress:
  "initReadExMessage up = (Returns x, up') \<Longrightarrow>
     stat up' = StatDisconnected \<or> pending up' < pending up"
  unfolding initReadExMessage_def Let_def pending_def
  by (auto split: option.splits prod.splits if_splits outcome.splits
      dest!: logclose_Returns ReadBytes_shorter Discard_shorter)

lemma initReadLine_reader:
  assumes "serverReader up = Some buf" and "ReadBytes 0x0A buf = ((jsonBytes, err), rest)"
  shows "serverReader (snd (initReadLine env up)) = Some rest"
  using assms unfolding initReadLine_def Let_def
  by (simp add: logclose_reader glog_IP_state handleSetVersionMask_reader
      handleSubScribeResponse_reader handleConfigureResponse_def
      handleGetCapsResponse_reader handleAuthorizeResponse_reader split: sum.splits)

lemma initReadLine_progress:
  assumes "initReadLine env up = (Returns x, up')"
  shows "stat up' = StatDisconnected \<or> pending up' < pending up"
proof (cases "serverReader up")
  case None
  with assms show ?thesis by (simp add: initReadLine_def)
next
  case (Some buf)
  obtain jsonBytes err rest where rb: "ReadBytes 0x0A buf = ((jsonBytes, err), rest)"
    by (cases "ReadBytes 0x0A buf") auto
  show ?thesis
  proof (cases err)
    case None
    with rb have "length rest < length buf"
      by (simp add: ReadBytes_shorter)
    moreover from initReadLine_reader [OF Some rb, of env] assms
    have "serverReader up' = Some rest" by simp
    ultimately show ?thesis
      using Some by (simp add: pending_def)
  next
    case (Some e)
    with assms \<open>serverReader up = Some buf\<close> rb
    have "andThen glog_IP (\<lambda>_. close) (up\<lparr>serverReader := Some rest\<rparr>) = (Returns x, up')"
      by (simp add: initReadLine_def)
    then show ?thesis
      by (simp add: logclose_Returns)
  qed
qed

lemma initHandleResponse_progress:
  assumes "initHandleResponse env up = (Returns x, up')"
  shows "stat up' = StatDisconnected \<or> pending up' < pending up"
  using assms unfolding initHandleResponse_def Let_def
  by (auto split: option.splits prod.splits if_splits
      dest: logclose_Returns initReadExMessage_progress initReadLine_progress)

text \<open>
  The loop of \<open>Init\<close> ends on every stream: a turn that returns has consumed a byte of
  the reader or has closed the session.
\<close>

termination initLoop
proof (relation "measure (\<lambda>(env, up). if handshaking up then Suc (pending up) else 0)")
  show "wf (measure (\<lambda>(env, up). if handshaking up then Suc (pending up) else 0))"
    by simp
next
  fix env up x1 up' u
  assume "handshaking up" and "(x1, up') = initHandleResponse env up" and "x1 = Returns u"
  then have "initHandleResponse env up = (Returns u, up')" by simp
  from initHandleResponse_progress [OF this]
  show "((env, up'), env, up) \<in> measure (\<lambda>(env, up). if handshaking up then Suc (pending up) else 0)"
    using \<open>handshaking up\<close> by (auto simp: handshaking_def)
qed

declare initLoop.simps [simp del]

section \<open>The library functions\<close>

lemma parseDigits_bound:
  "n < 2 ^ 32 \<Longrightarrow> parseDigits n cs = Inr v \<Longrightarrow> v < 2 ^ 32"
proof (induction cs arbitrary: n)
  case Nil
  then show ?case by simp
next
  case (Cons c cs)
  from Cons.prems(2) obtain d where "digitOf c = Some d" and "n * 16 + d < 2 ^ 32"
    and "parseDigits (n * 16 + d) cs = Inr v"
    by (auto split: option.splits if_splits)
  then show ?case
    using Cons.IH by blast
qed

lemma ParseUint_16_32_bound: "ParseUint_16_32 s = Inr v \<Longrightarrow> v < 2 ^ 32"
  by (auto simp: ParseUint_16_32_def split: if_splits dest: parseDigits_bound [rotated])

lemma uint32_of_parsed: "ParseUint_16_32 s = Inr v \<Longrightarrow> unat (of_nat v :: uint32) = v"
  by (drule ParseUint_16_32_bound) (simp add: unsigned_of_nat take_bit_nat_eq_self)

lemma logclose_connected:
  "serverConn up = Some c \<Longrightarrow>
   andThen glog_IP (\<lambda>_. close) up =
     (Returns (), up\<lparr>stat := StatDisconnected, serverConn := Some (c\<lparr>connClosed := True\<rparr>)\<rparr>)"
  by (simp add: andThen_def glog_IP_def IP_def close_def)

section \<open>The subscribe response\<close>

text \<open>
  C1. A subscribe response whose result is an array of at least 3 elements, whose
  element 1 is a string that \<open>ParseUint(_, 16, 32)\<close> decodes to \<open>v\<close> and whose element 2
  is a number that truncates to a width from 6 to 16: \<open>handleSubScribeResponse\<close> returns
  with \<open>sessionID\<close> set to \<open>v\<close> (the conversion to uint32 loses nothing),
  \<open>extraNonce2Size\<close> set to the truncated number and status \<open>StatSubScribed\<close>; no other
  field changes.
\<close>

theorem subscribe_success:
  assumes "Result rpcData = JArray result" and "3 \<le> length result"
    and "result ! 1 = JString sessionIDHex" and "ParseUint_16_32 sessionIDHex = Inr v"
    and "result ! 2 = JNumber f" and "6 \<le> truncate f" and "truncate f \<le> 16"
  shows "handleSubScribeResponse env rpcData jsonBytes up =
           (Returns (), up\<lparr>sessionID := of_nat v, extraNonce2Size := truncate f,
                             stat := StatSubScribed\<rparr>)
         \<and> unat (sessionID (snd (handleSubScribeResponse env rpcData jsonBytes up))) = v"
proof -
  from assms(6,7) have "int_of_float64 env f = truncate f"
    by (simp add: int_of_float64_def)
  with assms have run: "handleSubScribeResponse env rpcData jsonBytes up =
           (Returns (), up\<lparr>sessionID := of_nat v, extraNonce2Size := truncate f,
                             stat := StatSubScribed\<rparr>)"
    by (simp add: handleSubScribeResponse_def)
  from assms(4) have "unat (of_nat v :: uint32) = v"
    by (rule uint32_of_parsed)
  with run show ?thesis by simp
qed

theorem subscribe_success_witness:
  "handleSubScribeResponse (example_env example_conn [])
     (response (JString ''sub'') (JArray [JNull, JString ''1a2B3c4D'', JNumber (Float64 8 0)]))
     [] example_session =
     (Returns (), example_session\<lparr>sessionID := 0x1a2b3c4d, extraNonce2Size := 8,
                                   stat := StatSubScribed\<rparr>)"
  using subscribe_success [of
      "response (JString ''sub'') (JArray [JNull, JString ''1a2B3c4D'', JNumber (Float64 8 0)])"
      "[JNull, JString ''1a2B3c4D'', JNumber (Float64 8 0)]" "''1a2B3c4D''" "0x1a2b3c4d"
      "Float64 8 0" "example_env example_conn []" "[]" example_session]
  by (simp add: response_def ParseUint_16_32_def digitOf_def lower_def)

text \<open>
  C3. A subscribe response that is well-formed but whose decoded width is below 6, handled
  on a session with a connection: \<open>handleSubScribeResponse\<close> closes the connection and
  returns with status \<open>StatDisconnected\<close>; the status is not \<open>StatSubScribed\<close>.
\<close>

theorem subscribe_width_too_small:
  assumes "Result rpcData = JArray result" and "3 \<le> length result"
    and "result ! 1 = JString sessionIDHex" and "ParseUint_16_32 sessionIDHex = Inr v"
    and "result ! 2 = JNumber f" and "int_of_float64 env f < 6"
    and "serverConn up = Some c"
  shows "handleSubScribeResponse env rpcData jsonBytes up =
           (Returns (),
            up\<lparr>sessionID := of_nat v, extraNonce2Size := int_of_float64 env f,
               stat := StatDisconnected, serverConn := Some (c\<lparr>connClosed := True\<rparr>)\<rparr>)
         \<and> stat (snd (handleSubScribeResponse env rpcData jsonBytes up)) = StatDisconnected
         \<and> stat (snd (handleSubScribeResponse env rpcData jsonBytes up)) \<noteq> StatSubScribed"
proof -
  let ?up2 = "up\<lparr>sessionID := of_nat v, extraNonce2Size := int_of_float64 env f\<rparr>"
  from assms(1-6) have "handleSubScribeResponse env rpcData jsonBytes up =
      andThen glog_IP (\<lambda>_. close) ?up2"
    by (simp add: handleSubScribeResponse_def)
  moreover from assms(7) have "serverConn ?up2 = Some c" by simp
  ultimately show ?thesis
    by (simp add: logclose_connected)
qed

theorem subscribe_width_too_small_witness:
  "handleSubScribeResponse (example_env example_conn [])
     (response (JString ''sub'') (JArray [JNull, JString ''1a2B3c4D'', JNumber (Float64 11 (- 1))]))
     [] example_session =
     (Returns (),
      example_session\<lparr>sessionID := 0x1a2b3c4d, extraNonce2Size := 5,
         stat := StatDisconnected, serverConn := Some (example_conn\<lparr>connClosed := True\<rparr>)\<rparr>)"
  using subscribe_width_too_small [of
      "response (JString ''sub'') (JArray [JNull, JString ''1a2B3c4D'', JNumber (Float64 11 (- 1))])"
      "[JNull, JString ''1a2B3c4D'', JNumber (Float64 11 (- 1))]" "''1a2B3c4D''" "0x1a2b3c4d"
      "Float64 11 (- 1)" "example_env example_conn []" example_session example_conn "[]"]
  by (simp add: response_def ParseUint_16_32_def digitOf_def lower_def int_of_float64_def
      example_session_def)

text \<open>
  C10. On the same error the session that \<open>close\<close> is called on already has
  \<open>sessionID\<close> and \<open>extraNonce2Size\<close> overwritten with the decoded values, and the
  session the call leaves behind holds them, whatever the connection is.
\<close>

theorem subscribe_not_atomic:
  assumes "Result rpcData = JArray result" and "3 \<le> length result"
    and "result ! 1 = JString sessionIDHex" and "ParseUint_16_32 sessionIDHex = Inr v"
    and "result ! 2 = JNumber f" and "int_of_float64 env f < 6"
  shows "handleSubScribeResponse env rpcData jsonBytes up =
           andThen glog_IP (\<lambda>_. close)
             (up\<lparr>sessionID := of_nat v, extraNonce2Size := int_of_float64 env f\<rparr>)
         \<and> sessionID (snd (handleSubScribeResponse env rpcData jsonBytes up)) = of_nat v
         \<and> unat (sessionID (snd (handleSubScribeResponse env rpcData jsonBytes up))) = v
         \<and> extraNonce2Size (snd (handleSubScribeResponse env rpcData jsonBytes up)) =
             int_of_float64 env f"
proof -
  let ?up2 = "up\<lparr>sessionID := of_nat v, extraNonce2Size := int_of_float64 env f\<rparr>"
  let ?end = "snd (andThen glog_IP (\<lambda>_. close) ?up2)"
  from assms have run: "handleSubScribeResponse env rpcData jsonBytes up =
      andThen glog_IP (\<lambda>_. close) ?up2"
    by (simp add: handleSubScribeResponse_def)
  have "sessionID ?end = sessionID ?up2"
    by (rule andThen_snd) (simp_all add: glog_IP_state close_def Let_def split: option.splits)
  moreover have "extraNonce2Size ?end = extraNonce2Size ?up2"
    by (rule andThen_snd) (simp_all add: glog_IP_state close_def Let_def split: option.splits)
  moreover from assms(4) have "unat (of_nat v :: uint32) = v"
    by (rule uint32_of_parsed)
  ultimately show ?thesis
    using run by simp
qed

theorem subscribe_not_atomic_witness:
  "sessionID (snd (handleSubScribeResponse (example_env example_conn [])
     (response (JString ''sub'') (JArray [JNull, JString ''ff'', JNumber (Float64 4 0)]))
     [] example_session)) = 255
   \<and> extraNonce2Size (snd (handleSubScribeResponse (example_env example_conn [])
     (response (JString ''sub'') (JArray [JNull, JString ''ff'', JNumber (Float64 4 0)]))
     [] example_session)) = 4
   \<and> sessionID example_session = 0 \<and> extraNonce2Size example_session = 0"
  using subscribe_not_atomic [of
      "response (JString ''sub'') (JArray [JNull, JString ''ff'', JNumber (Float64 4 0)])"
      "[JNull, JString ''ff'', JNumber (Float64 4 0)]" "''ff''" "255"
      "Float64 4 0" "example_env example_conn []" "[]" example_session]
  by (simp add: response_def ParseUint_16_32_def digitOf_def lower_def int_of_float64_def
      example_session_def new_session_def NewUpSession_def andThen_def glog_IP_def IP_def
      close_def)

section \<open>The authorize response\<close>

text \<open>
  C2. On a session with a connection, \<open>handleAuthorizeResponse\<close> returns with status
  \<open>StatAuthorized\<close> when the result is the boolean true; for every other result (false,
  or not a boolean) it closes the connection and returns with status
  \<open>StatDisconnected\<close>. So the status it leaves is \<open>StatAuthorized\<close> exactly when the
  result is true.
\<close>

theorem authorize_response:
  assumes "serverConn up = Some c"
  shows "handleAuthorizeResponse rpcData jsonBytes up =
           (if Result rpcData = JBool True then (Returns (), up\<lparr>stat := StatAuthorized\<rparr>)
            else (Returns (),
                  up\<lparr>stat := StatDisconnected,
                     serverConn := Some (c\<lparr>connClosed := True\<rparr>)\<rparr>))
         \<and> (stat (snd (handleAuthorizeResponse rpcData jsonBytes up)) = StatAuthorized
              \<longleftrightarrow> Result rpcData = JBool True)"
proof -
  have run: "handleAuthorizeResponse rpcData jsonBytes up =
           (if Result rpcData = JBool True then (Returns (), up\<lparr>stat := StatAuthorized\<rparr>)
            else (Returns (),
                  up\<lparr>stat := StatDisconnected,
                     serverConn := Some (c\<lparr>connClosed := True\<rparr>)\<rparr>))"
  proof (cases "Result rpcData")
    case (JBool b)
    with assms show ?thesis
      by (cases b)
        (simp_all add: handleAuthorizeResponse_def andThen_def glog_IP_def IP_def close_def)
  qed (use assms in \<open>simp_all add: handleAuthorizeResponse_def logclose_connected\<close>)
  then show ?thesis by simp
qed

theorem authorize_response_witness:
  "handleAuthorizeResponse (response (JString ''auth'') (JBool True)) [] example_session =
     (Returns (), example_session\<lparr>stat := StatAuthorized\<rparr>)
   \<and> handleAuthorizeResponse (response (JString ''auth'') (JBool False)) [] example_session =
     (Returns (), example_session\<lparr>stat := StatDisconnected,
        serverConn := Some (example_conn\<lparr>connClosed := True\<rparr>)\<rparr>)
   \<and> handleAuthorizeResponse (response (JString ''auth'') (JString ''true'')) [] example_session =
     (Returns (), example_session\<lparr>stat := StatDisconnected,
        serverConn := Some (example_conn\<lparr>connClosed := True\<rparr>)\<rparr>)"
  using authorize_response [of example_session example_conn
      "response (JString ''auth'') (JBool True)" "[]"]
    authorize_response [of example_session example_conn
      "response (JString ''auth'') (JBool False)" "[]"]
    authorize_response [of example_session example_conn
      "response (JString ''auth'') (JString ''true'')" "[]"]
  by (simp add: response_def example_session_def)

section \<open>The capabilities response\<close>

lemma andThen_returns: "andThen (returns x) f s = f x s"
  by (simp add: andThen_def returns_def)

lemma andThen_Returns: "andThen (\<lambda>s. (Returns x, h s)) f s = f x (h s)"
  by (simp add: andThen_def)

lemma andThen_Pair: "andThen (Pair (Returns x)) f s = f x s"
  by (simp add: andThen_def)

lemma andThen_glog_IP_snd: "snd (andThen glog_IP f s) = (case IP s of Returns _ \<Rightarrow> snd (f () s) | _ \<Rightarrow> s)"
  by (simp add: andThen_def glog_IP_def split: outcome.splits)

lemma foldl_setCapability_stat: "stat (foldl setCapability up capsArr) = stat up"
  by (induction capsArr arbitrary: up) (simp_all add: setCapability_def)

lemma foldl_setCapability_conn: "serverConn (foldl setCapability up capsArr) = serverConn up"
  by (induction capsArr arbitrary: up) (simp_all add: setCapability_def)

lemma handleGetCapsResponse_stat:
  "stat (snd (handleGetCapsResponse rpcData jsonBytes up)) = stat up"
  unfolding handleGetCapsResponse_def Let_def
  by (auto split: prod.splits option.splits
      intro!: andThen_snd simp: glog_IP_state returns_def foldl_setCapability_stat)

lemma handleGetCapsResponse_conn:
  "serverConn (snd (handleGetCapsResponse rpcData jsonBytes up)) = serverConn up"
  unfolding handleGetCapsResponse_def Let_def
  by (auto split: prod.splits option.splits
      intro!: andThen_snd simp: glog_IP_state returns_def foldl_setCapability_conn)

lemma handleGetCapsResponse_both:
  assumes "Result rpcData = JObject m"
    and "m ''capabilities'' = Some (JArray [JString ''verrol'', JString ''subres''])"
  shows "serverCapsVerRol (snd (handleGetCapsResponse rpcData jsonBytes up))
       \<and> serverCapsSubRes (snd (handleGetCapsResponse rpcData jsonBytes up))"
  using assms
  by (simp add: handleGetCapsResponse_def andThen_def setCapability_def returns_def
      split: option.splits)

lemma foldl_setCapability_config: "config (foldl setCapability up capsArr) = config up"
  by (induction capsArr arbitrary: up) (simp_all add: setCapability_def)

lemma glog_IP_connected: "serverConn up = Some c \<Longrightarrow> glog_IP up = (Returns (), up)"
  by (simp add: glog_IP_def IP_def)

text \<open>Without a capability in the response nothing is assigned.\<close>

lemma handleGetCapsResponse_tail:
  "snd (andThen (\<lambda>up. if \<not> serverCapsVerRol up then glog_IP up else returns () up) (\<lambda>_ up.
        case config up of
          None \<Rightarrow> (Panics NilDereference, up)
        | Some cfg \<Rightarrow>
            if SubmitResponseFromServer cfg \<and> \<not> serverCapsSubRes up
            then (Returns (), up)
            else (Returns (), up)) s) = s"
  by (simp add: andThen_def glog_IP_def returns_def split: outcome.splits option.splits)

lemma handleGetCapsResponse_none:
  assumes "\<And>m a. Result rpcData = JObject m \<Longrightarrow> m ''capabilities'' = Some (JArray a) \<Longrightarrow> a = []"
  shows "snd (handleGetCapsResponse rpcData jsonBytes up) = up"
proof (cases "Result rpcData")
  case (JObject m)
  show ?thesis
  proof (cases "m ''capabilities''")
    case None
    with JObject show ?thesis
      by (simp add: handleGetCapsResponse_def andThen_glog_IP_snd handleGetCapsResponse_tail
          andThen_Returns andThen_Pair andThen_returns split: outcome.splits)
  next
    case (Some caps)
    show ?thesis
    proof (cases caps)
      case (JArray a)
      with JObject Some assms have "a = []" by simp
      with JObject Some JArray show ?thesis
        by (simp add: handleGetCapsResponse_def handleGetCapsResponse_tail
            andThen_Returns andThen_Pair andThen_returns)
    qed (use JObject Some in \<open>simp_all add: handleGetCapsResponse_def andThen_glog_IP_snd
      handleGetCapsResponse_tail andThen_Returns andThen_Pair andThen_returns
      split: outcome.splits\<close>)
  qed
qed (simp_all add: handleGetCapsResponse_def andThen_glog_IP_snd handleGetCapsResponse_tail
  andThen_Returns andThen_Pair andThen_returns split: outcome.splits)

lemma handleGetCapsResponse_returns:
  assumes "serverConn up = Some c" and "config up = Some cfg"
  shows "fst (handleGetCapsResponse rpcData jsonBytes up) = Returns ()"
  using assms unfolding handleGetCapsResponse_def Let_def
  by (simp add: andThen_def returns_def glog_IP_connected foldl_setCapability_conn
      foldl_setCapability_config split: prod.splits json.splits option.splits)

text \<open>
  C7. \<open>handleGetCapsResponse\<close>: a result object whose \<open>capabilities\<close> is the array
  of \<open>verrol\<close> and \<open>subres\<close> leaves both capability flags true; an empty array leaves
  the session as it was (flags that were false stay false); so does every response
  without a capabilities array (result not an object, field missing, field not an
  array). For every response the status and the connection stay as they were, and on a
  session with a connection and a configuration the call returns.
\<close>

theorem capabilities_response:
  "(Result rpcData = JObject m \<and>
      m ''capabilities'' = Some (JArray [JString ''verrol'', JString ''subres'']) \<longrightarrow>
      serverCapsVerRol (snd (handleGetCapsResponse rpcData jsonBytes up)) \<and>
      serverCapsSubRes (snd (handleGetCapsResponse rpcData jsonBytes up)))
   \<and> (Result rpcData = JObject m \<and> m ''capabilities'' = Some (JArray []) \<longrightarrow>
      snd (handleGetCapsResponse rpcData jsonBytes up) = up)
   \<and> ((\<forall>m' a. Result rpcData = JObject m' \<longrightarrow> m' ''capabilities'' \<noteq> Some (JArray a)) \<longrightarrow>
      snd (handleGetCapsResponse rpcData jsonBytes up) = up)
   \<and> stat (snd (handleGetCapsResponse rpcData jsonBytes up)) = stat up
   \<and> serverConn (snd (handleGetCapsResponse rpcData jsonBytes up)) = serverConn up
   \<and> (serverConn up \<noteq> None \<and> config up \<noteq> None \<longrightarrow>
      fst (handleGetCapsResponse rpcData jsonBytes up) = Returns ())"
proof (intro conjI impI)
  assume "Result rpcData = JObject m \<and>
      m ''capabilities'' = Some (JArray [JString ''verrol'', JString ''subres''])"
  then have both: "serverCapsVerRol (snd (handleGetCapsResponse rpcData jsonBytes up))
       \<and> serverCapsSubRes (snd (handleGetCapsResponse rpcData jsonBytes up))"
    by (simp add: handleGetCapsResponse_both)
  from both show "serverCapsVerRol (snd (handleGetCapsResponse rpcData jsonBytes up))" ..
  from both show "serverCapsSubRes (snd (handleGetCapsResponse rpcData jsonBytes up))" ..
next
  assume "Result rpcData = JObject m \<and> m ''capabilities'' = Some (JArray [])"
  then show "snd (handleGetCapsResponse rpcData jsonBytes up) = up"
    by (intro handleGetCapsResponse_none) simp
next
  assume "\<forall>m' a. Result rpcData = JObject m' \<longrightarrow> m' ''capabilities'' \<noteq> Some (JArray a)"
  then show "snd (handleGetCapsResponse rpcData jsonBytes up) = up"
    by (intro handleGetCapsResponse_none) simp
next
  show "stat (snd (handleGetCapsResponse rpcData jsonBytes up)) = stat up"
    by (rule handleGetCapsResponse_stat)
  show "serverConn (snd (handleGetCapsResponse rpcData jsonBytes up)) = serverConn up"
    by (rule handleGetCapsResponse_conn)
next
  assume "serverConn up \<noteq> None \<and> config up \<noteq> None"
  then show "fst (handleGetCapsResponse rpcData jsonBytes up) = Returns ()"
    by (auto intro: handleGetCapsResponse_returns)
qed

theorem capabilities_response_witness:
  "serverCapsVerRol (snd (handleGetCapsResponse
      (response (JString ''caps'')
         (JObject [''capabilities'' \<mapsto> JArray [JString ''verrol'', JString ''subres'']]))
      [] example_session))
   \<and> serverCapsSubRes (snd (handleGetCapsResponse
      (response (JString ''caps'')
         (JObject [''capabilities'' \<mapsto> JArray [JString ''verrol'', JString ''subres'']]))
      [] example_session))
   \<and> snd (handleGetCapsResponse
      (response (JString ''caps'') (JObject [''capabilities'' \<mapsto> JArray []]))
      [] example_session) = example_session
   \<and> snd (handleGetCapsResponse (response (JString ''caps'') (JString ''none''))
      [] example_session) = example_session
   \<and> fst (handleGetCapsResponse (response (JString ''caps'') (JString ''none''))
      [] example_session) = Returns ()
   \<and> \<not> serverCapsVerRol example_session \<and> \<not> serverCapsSubRes example_session"
  using capabilities_response [of
      "response (JString ''caps'')
         (JObject [''capabilities'' \<mapsto> JArray [JString ''verrol'', JString ''subres'']])"
      "[''capabilities'' \<mapsto> JArray [JString ''verrol'', JString ''subres'']]"
      "[]" example_session]
    capabilities_response [of
      "response (JString ''caps'') (JObject [''capabilities'' \<mapsto> JArray []])"
      "[''capabilities'' \<mapsto> JArray []]" "[]" example_session]
    capabilities_response [of
      "response (JString ''caps'') (JString ''none'')" Map.empty "[]" example_session]
  by (simp add: response_def example_session_def new_session_def NewUpSession_def)

section \<open>The loop of the handshake\<close>

lemma ReadBytes_delimited:
  "d \<notin> set line \<Longrightarrow> ReadBytes d (line @ d # rest) = ((line @ [d], None), rest)"
proof -
  assume "d \<notin> set line"
  then have "takeWhile (\<lambda>b. b \<noteq> d) line = line" and "dropWhile (\<lambda>b. b \<noteq> d) line = []"
    by auto
  then show ?thesis
    by (simp add: ReadBytes_def takeWhile_tail dropWhile_append3)
qed

lemma Peek_first: "buf \<noteq> [] \<Longrightarrow> Peek (Suc 0) buf = ([hd buf], None)"
  by (cases buf) (simp_all add: Peek_def)

lemma initLoop_step:
  "handshaking up \<Longrightarrow> initHandleResponse env up = (Returns x, up') \<Longrightarrow>
   initLoop env up = initLoop env up'"
  by (subst initLoop.simps) simp

lemma initLoop_stop: "\<not> handshaking up \<Longrightarrow> initLoop env up = (Returns (), up)"
  by (subst initLoop.simps) simp

lemma initLoop_panic:
  "handshaking up \<Longrightarrow> initHandleResponse env up = (Panics p, up') \<Longrightarrow>
   initLoop env up = (Panics p, up')"
  by (subst initLoop.simps) simp

text \<open>
  C8. The reader holds a line (bytes up to the first newline) that \<open>NewJSONRPCLine\<close>
  rejects, on a session with a connection: \<open>initReadLine\<close> returns with the line
  consumed and nothing else changed (the status and the connection are as before). When
  the line does not start with the magic number, \<open>initHandleResponse\<close> does the same, and
  the loop of \<open>Init\<close> goes on with the bytes after the line.
\<close>

theorem malformed_line_dropped:
  assumes "serverReader up = Some (line @ 0x0A # rest)" and "0x0A \<notin> set line"
    and "newJSONRPCLine env (line @ [0x0A]) = Inl e" and "serverConn up = Some c"
  shows "initReadLine env up = (Returns (), up\<lparr>serverReader := Some rest\<rparr>)
       \<and> (hd (line @ [0x0A]) \<noteq> ExMessageMagicNumber \<longrightarrow>
            initHandleResponse env up = (Returns (), up\<lparr>serverReader := Some rest\<rparr>))
       \<and> (hd (line @ [0x0A]) \<noteq> ExMessageMagicNumber \<and> handshaking up \<longrightarrow>
            initLoop env up = initLoop env (up\<lparr>serverReader := Some rest\<rparr>))"
proof -
  let ?up1 = "up\<lparr>serverReader := Some rest\<rparr>"
  from assms(4) have "glog_IP ?up1 = (Returns (), ?up1)"
    by (simp add: glog_IP_connected)
  with assms(1-3) have line: "initReadLine env up = (Returns (), ?up1)"
    by (simp add: initReadLine_def ReadBytes_delimited)
  have "hd (line @ 0x0A # rest) = hd (line @ [0x0A])"
    by (cases line) simp_all
  with assms(1) line have unit: "initHandleResponse env up = (Returns (), ?up1)"
    if "hd (line @ [0x0A]) \<noteq> ExMessageMagicNumber"
    using that by (simp add: initHandleResponse_def Peek_first)
  from unit have "initLoop env up = initLoop env ?up1"
    if "hd (line @ [0x0A]) \<noteq> ExMessageMagicNumber" and "handshaking up"
    using that by (simp add: initLoop_step)
  with line unit show ?thesis by simp
qed

theorem malformed_line_dropped_witness:
  "initReadLine (example_env example_conn []) (example_session\<lparr>serverReader := Some (broken_line @ auth_line)\<rparr>)
     = (Returns (), example_session\<lparr>serverReader := Some auth_line\<rparr>)
   \<and> initLoop (example_env example_conn []) (example_session\<lparr>serverReader := Some (broken_line @ auth_line)\<rparr>)
     = initLoop (example_env example_conn []) (example_session\<lparr>serverReader := Some auth_line\<rparr>)
   \<and> initLoop (example_env example_conn []) (example_session\<lparr>serverReader := Some auth_line\<rparr>)
     = (Returns (), example_session\<lparr>serverReader := Some [], stat := StatAuthorized\<rparr>)"
proof -
  have "initHandleResponse (example_env example_conn []) (example_session\<lparr>serverReader := Some auth_line\<rparr>)
     = (Returns (), example_session\<lparr>serverReader := Some [], stat := StatAuthorized\<rparr>)"
    by (simp add: initHandleResponse_def Peek_def auth_line_def ExMessageMagicNumber_def
        initReadLine_def ReadBytes_def example_env_def response_def
        handleAuthorizeResponse_def andThen_def glog_IP_def IP_def example_session_def)
  then have "initLoop (example_env example_conn []) (example_session\<lparr>serverReader := Some auth_line\<rparr>)
     = (Returns (), example_session\<lparr>serverReader := Some [], stat := StatAuthorized\<rparr>)"
    by (simp add: initLoop_step [where x = "()"] initLoop_stop handshaking_def
        example_session_def)
  with malformed_line_dropped [of "example_session\<lparr>serverReader := Some (broken_line @ auth_line)\<rparr>"
      "[0x7B, 0x7B]" auth_line "example_env example_conn []" ErrDecode example_conn]
  show ?thesis
    by (simp add: broken_line_def example_env_def auth_line_def example_session_def
        ExMessageMagicNumber_def handshaking_def)
qed

section \<open>The header of an Ex-Message\<close>

text \<open>
  C4. \<open>initReadExMessage\<close> reads the header with \<open>ReadBytes(4)\<close>, which reads up to the
  first byte of value 4 and not four bytes. On a frame of declared length 4, the bytes
  \<open>[0x7F, t, 0x04, 0x00]\<close>, the read stops at the low byte of the length (or at \<open>t\<close> when
  \<open>t\<close> is 4): three bytes (or two) are consumed, and \<open>Uint16\<close> panics on the short
  slice \<open>header[2:]\<close>.
\<close>

theorem ex_message_header_short_read:
  assumes "serverReader up = Some (0x7F # t # 0x04 # 0x00 # rest)"
  shows "initHandleResponse env up =
           (Panics IndexOutOfRange,
            up\<lparr>serverReader := Some (if t = 0x04 then 0x04 # 0x00 # rest else 0x00 # rest)\<rparr>)"
  using assms
  by (simp add: initHandleResponse_def Peek_def ExMessageMagicNumber_def
      initReadExMessage_def ReadBytes_def Uint16_def)

theorem ex_message_header_short_read_witness:
  "initHandleResponse (example_env example_conn [])
     (example_session\<lparr>serverReader := Some [0x7F, 0x01, 0x04, 0x00]\<rparr>) =
     (Panics IndexOutOfRange, example_session\<lparr>serverReader := Some [0x00]\<rparr>)"
  using ex_message_header_short_read [of
      "example_session\<lparr>serverReader := Some [0x7F, 0x01, 0x04, 0x00]\<rparr>" "0x01" "[]"
      "example_env example_conn []"]
  by simp

text \<open>
  A frame of declared length 8 followed by a byte 0x04: the header read takes five bytes
  and four more are discarded, nine bytes for a frame of eight.
\<close>

lemma ex_message_length8:
  "initHandleResponse env
     (example_session\<lparr>serverReader := Some [0x7F, 0x01, 0x08, 0x00, 0x04, 0xA1, 0xA2, 0xA3, 0x7B, 0x7D]\<rparr>) =
     (Returns (), example_session\<lparr>serverReader := Some [0x7D]\<rparr>)"
  by (simp add: initHandleResponse_def Peek_def ExMessageMagicNumber_def
      initReadExMessage_def ReadBytes_def Uint16_def Discard_def)

text \<open>A frame of declared length 5 with no byte 0x04 after it: the header read fails.\<close>

lemma ex_message_no_delimiter:
  "initHandleResponse env
     (example_session\<lparr>serverReader := Some [0x7F, 0x01, 0x05, 0x00, 0xA1]\<rparr>) =
     (Returns (),
      example_session\<lparr>serverReader := Some [], stat := StatDisconnected,
        serverConn := Some (example_conn\<lparr>connClosed := True\<rparr>)\<rparr>)"
  by (simp add: initHandleResponse_def Peek_def ExMessageMagicNumber_def
      initReadExMessage_def ReadBytes_def andThen_def glog_IP_def IP_def close_def
      example_session_def)

section \<open>The four requests\<close>

text \<open>On a session with a connection a write returns, and closes nothing.\<close>

lemma writeJSONRequestToServer_connected:
  assumes "serverConn up = Some c"
  shows "\<exists>r c'. writeJSONRequestToServer env request up = (Returns r, up\<lparr>serverConn := Some c'\<rparr>)
           \<and> connClosed c' = connClosed c"
proof (cases "stat up = StatConnecting \<or> stat up = StatDisconnected")
  case True
  with assms have "writeJSONRequestToServer env request up =
      (Returns (0, Some ErrConnectionClosed), up\<lparr>serverConn := Some c\<rparr>)"
    by (simp add: writeJSONRequestToServer_def)
  then show ?thesis by blast
next
  case False
  show ?thesis
  proof (cases "toJSONBytesLine env request")
    case (Inl err)
    with False assms have "writeJSONRequestToServer env request up =
        (Returns (0, Some err), up\<lparr>serverConn := Some c\<rparr>)"
      by (simp add: writeJSONRequestToServer_def)
    then show ?thesis by blast
  next
    case (Inr bytes)
    with False assms have "writeJSONRequestToServer env request up =
        (Returns (fst (Write bytes c)), up\<lparr>serverConn := Some (snd (Write bytes c))\<rparr>)"
      by (simp add: writeJSONRequestToServer_def split: prod.splits)
    moreover have "connClosed (snd (Write bytes c)) = connClosed c"
      by (simp add: Write_def)
    ultimately show ?thesis by blast
  qed
qed

text \<open>
  A run of \<open>Init\<close>: the dial succeeds, every write on the connection fails, and the peer
  sends an accepting authorize response.
\<close>

lemma initSendRequest_failing_writes:
  "initSendRequest (example_env broken_conn auth_line)
     (new_session\<lparr>serverConn := Some broken_conn, serverReader := Some auth_line,
        stat := StatConnected\<rparr>) =
     (Returns None,
      new_session\<lparr>serverConn := Some (broken_conn\<lparr>writes := [[], [], [], []]\<rparr>),
        serverReader := Some auth_line, stat := StatConnected\<rparr>)"
  by (simp add: initSendRequest_def Let_def andThen_def returns_def
      writeJSONRequestToServer_def Write_def example_env_def broken_conn_def
      example_conn_def new_session_def NewUpSession_def)

lemma Init_failing_writes:
  "Init (example_env broken_conn auth_line) new_session =
     (Returns (),
      new_session\<lparr>serverConn := Some (broken_conn\<lparr>writes := [[], [], [], []]\<rparr>),
        serverReader := Some [], stat := StatAuthorized\<rparr>)"
proof -
  let ?env = "example_env broken_conn auth_line"
  let ?up1 = "new_session\<lparr>serverConn := Some broken_conn, serverReader := Some auth_line,
        stat := StatConnected\<rparr>"
  let ?up2 = "new_session\<lparr>serverConn := Some (broken_conn\<lparr>writes := [[], [], [], []]\<rparr>),
        serverReader := Some auth_line, stat := StatConnected\<rparr>"
  let ?up3 = "new_session\<lparr>serverConn := Some (broken_conn\<lparr>writes := [[], [], [], []]\<rparr>),
        serverReader := Some [], stat := StatAuthorized\<rparr>"
  have conn: "connect ?env new_session = (Returns None, ?up1)"
    by (simp add: connect_def configuredPool_def new_session_def NewUpSession_def
        example_config_def example_env_def)
  have "initHandleResponse ?env ?up2 = (Returns (), ?up3)"
    by (simp add: initHandleResponse_def Peek_def auth_line_def ExMessageMagicNumber_def
        initReadLine_def ReadBytes_def example_env_def response_def
        handleAuthorizeResponse_def andThen_def glog_IP_def IP_def new_session_def
        NewUpSession_def)
  then have loop: "initLoop ?env ?up2 = (Returns (), ?up3)"
    by (simp add: initLoop_step [where x = "()"] initLoop_stop handshaking_def
        new_session_def NewUpSession_def)
  from conn initSendRequest_failing_writes loop show ?thesis
    by (simp add: Init_def andThen_def)
qed

text \<open>
  C5. \<open>initSendRequest\<close> calls \<open>writeJSONRequestToServer\<close> without assigning its
  results, so its own \<open>err\<close> is nil at every test: on a session with a connection it
  returns nil whatever the writes do, and closes nothing. With a connection all of whose
  writes fail, \<open>Init\<close> therefore enters the loop, and reaches \<open>StatAuthorized\<close> when the
  peer sends an accepting authorize response.
\<close>

theorem initSendRequest_returns_nil:
  assumes "serverConn up = Some c"
  shows "\<exists>c'. initSendRequest env up = (Returns None, up\<lparr>serverConn := Some c'\<rparr>)
           \<and> connClosed c' = connClosed c"
proof -
  let ?r1 = "SetParam [JString (userAgent env)]
      (\<lparr>reqID = JNull, reqMethod = [], reqParams = []\<rparr>
         \<lparr>reqID := JString ''sub'', reqMethod := ''mining.subscribe''\<rparr>)"
  let ?r2 = "SetParam
      [JArray [JString ''version-rolling''],
       JObject [''version-rolling.mask'' \<mapsto> JString ''ffffffff'',
                ''version-rolling.min-bit-count'' \<mapsto> JNumber (Float64 0 0)]]
      (?r1\<lparr>reqID := JString ''conf'', reqMethod := ''mining.configure''\<rparr>)"
  let ?r3 = "SetParam [JArray [JString ''verrol'']]
      (?r2\<lparr>reqID := JString ''caps'', reqMethod := ''agent.get_capabilities''\<rparr>)"
  let ?r4 = "SetParam [JString (subAccount up), JString []]
      (?r3\<lparr>reqID := JString ''auth'', reqMethod := ''mining.authorize''\<rparr>)"
  from writeJSONRequestToServer_connected [OF assms, of env ?r1]
  obtain x1 c1 where w1: "writeJSONRequestToServer env ?r1 up = (Returns x1, up\<lparr>serverConn := Some c1\<rparr>)"
    and k1: "connClosed c1 = connClosed c" by blast
  from writeJSONRequestToServer_connected [of "up\<lparr>serverConn := Some c1\<rparr>" c1 env ?r2]
  obtain x2 c2 where w2: "writeJSONRequestToServer env ?r2 (up\<lparr>serverConn := Some c1\<rparr>) =
      (Returns x2, up\<lparr>serverConn := Some c2\<rparr>)"
    and k2: "connClosed c2 = connClosed c1" by auto
  from writeJSONRequestToServer_connected [of "up\<lparr>serverConn := Some c2\<rparr>" c2 env ?r3]
  obtain x3 c3 where w3: "writeJSONRequestToServer env ?r3 (up\<lparr>serverConn := Some c2\<rparr>) =
      (Returns x3, up\<lparr>serverConn := Some c3\<rparr>)"
    and k3: "connClosed c3 = connClosed c2" by auto
  from writeJSONRequestToServer_connected [of "up\<lparr>serverConn := Some c3\<rparr>" c3 env ?r4]
  obtain x4 c4 where w4: "writeJSONRequestToServer env ?r4 (up\<lparr>serverConn := Some c3\<rparr>) =
      (Returns x4, up\<lparr>serverConn := Some c4\<rparr>)"
    and k4: "connClosed c4 = connClosed c3" by auto
  from w1 w2 w3 w4 have "initSendRequest env up = (Returns None, up\<lparr>serverConn := Some c4\<rparr>)"
    by (simp add: initSendRequest_def Let_def andThen_def returns_def)
  moreover from k1 k2 k3 k4 have "connClosed c4 = connClosed c" by simp
  ultimately show ?thesis by blast
qed


theorem initSendRequest_returns_nil_witness:
  "initSendRequest (example_env broken_conn auth_line)
     (new_session\<lparr>serverConn := Some broken_conn, serverReader := Some auth_line,
        stat := StatConnected\<rparr>) =
     (Returns None,
      new_session\<lparr>serverConn := Some (broken_conn\<lparr>writes := [[], [], [], []]\<rparr>),
        serverReader := Some auth_line, stat := StatConnected\<rparr>)
   \<and> (\<forall>k. writeFails broken_conn k)
   \<and> Init (example_env broken_conn auth_line) new_session =
     (Returns (),
      new_session\<lparr>serverConn := Some (broken_conn\<lparr>writes := [[], [], [], []]\<rparr>),
        serverReader := Some [], stat := StatAuthorized\<rparr>)"
  using initSendRequest_returns_nil [of
      "new_session\<lparr>serverConn := Some broken_conn, serverReader := Some auth_line,
         stat := StatConnected\<rparr>"
      broken_conn "example_env broken_conn auth_line"]
    initSendRequest_failing_writes Init_failing_writes
  by (simp add: broken_conn_def)

section \<open>The status \<open>StatDisconnected\<close>\<close>

lemma close_stat: "stat (snd (close up)) = StatDisconnected"
  by (simp add: close_def Let_def split: option.splits)

lemma logclose_stat:
  "stat (snd (andThen glog_IP (\<lambda>_. close) up)) = stat up
   \<or> stat (snd (andThen glog_IP (\<lambda>_. close) up)) = StatDisconnected"
  by (simp add: andThen_glog_IP_snd close_stat split: outcome.splits)

lemma writeJSONRequestToServer_stat:
  "stat (snd (writeJSONRequestToServer env request up)) = stat up"
  by (simp add: writeJSONRequestToServer_def split: sum.splits option.splits prod.splits)

text \<open>What the four writes leave alone, \<open>initSendRequest\<close> leaves alone.\<close>

lemma initSendRequest_frame:
  assumes "\<And>request s. g (snd (writeJSONRequestToServer env request s)) = g s"
  shows "g (snd (initSendRequest env up)) = g up"
  unfolding initSendRequest_def Let_def
  by (auto intro!: andThen_snd simp: assms returns_def)

lemma initSendRequest_stat: "stat (snd (initSendRequest env up)) = stat up"
  by (rule initSendRequest_frame) (rule writeJSONRequestToServer_stat)

lemma handleSetVersionMask_stat:
  "stat (snd (handleSetVersionMask rpcData jsonBytes up)) = stat up"
  by (simp add: handleSetVersionMask_def glog_IP_state split: json.splits sum.splits)

lemma initReadExMessage_stat:
  "stat (snd (initReadExMessage up)) = stat up
   \<or> stat (snd (initReadExMessage up)) = StatDisconnected"
  unfolding initReadExMessage_def Let_def
  using logclose_stat
  by (auto split: option.splits prod.splits outcome.splits simp: andThen_glog_IP_snd close_stat)

lemma SendEvent_state: "snd (SendEvent event up) = up"
  by (simp add: SendEvent_def split: option.splits)

lemma addStratumSession_stat: "stat (snd (addStratumSession session up)) = stat up"
  by (simp add: addStratumSession_def split: option.splits)

lemma handleDelivered_stat: "stat (snd (handleDelivered events up)) = stat up"
proof (induction events arbitrary: up)
  case Nil
  show ?case by simp
next
  case (Cons e events)
  show ?case
  proof (cases e)
    case (EventAddStratumSession session)
    have "stat (snd (andThen (addStratumSession session) (\<lambda>_. handleDelivered events) up)) = stat up"
      by (rule andThen_snd) (simp_all add: addStratumSession_stat Cons.IH)
    with EventAddStratumSession show ?thesis by simp
  next
    case OtherEvent
    with Cons.IH show ?thesis by simp
  qed
qed

lemma handleEvent_stat: "stat (snd (handleEvent events up)) = stat up"
  by (simp add: handleEvent_def handleDelivered_stat split: option.splits)

text \<open>
  C6, as the code has it. On a session whose status is \<open>StatDisconnected\<close>, \<open>close\<close>,
  the writes of the requests, \<open>initReadExMessage\<close>, the set-version-mask, configure and
  capabilities handlers and the operations on events leave the status
  \<open>StatDisconnected\<close>, and the loop of \<open>Init\<close> returns at once without reading a unit.
  \<open>connect\<close> is not among them: it is the way out of \<open>StatDisconnected\<close>, the
  status of a new session.
\<close>

theorem disconnected_kept:
  assumes "stat up = StatDisconnected"
  shows "stat (snd (close up)) = StatDisconnected
       \<and> stat (snd (writeJSONRequestToServer env request up)) = StatDisconnected
       \<and> stat (snd (initSendRequest env up)) = StatDisconnected
       \<and> stat (snd (initReadExMessage up)) = StatDisconnected
       \<and> stat (snd (handleSetVersionMask rpcData jsonBytes up)) = StatDisconnected
       \<and> stat (snd (handleConfigureResponse rpcData jsonBytes up)) = StatDisconnected
       \<and> stat (snd (handleGetCapsResponse rpcData jsonBytes up)) = StatDisconnected
       \<and> stat (snd (SendEvent event up)) = StatDisconnected
       \<and> stat (snd (AddStratumSession session up)) = StatDisconnected
       \<and> stat (snd (addStratumSession session up)) = StatDisconnected
       \<and> stat (snd (handleEvent events up)) = StatDisconnected
       \<and> stat (snd (Run events up)) = StatDisconnected
       \<and> initLoop env up = (Returns (), up)"
proof -
  from assms initReadExMessage_stat [of up]
  have "stat (snd (initReadExMessage up)) = StatDisconnected" by auto
  moreover from assms have "initLoop env up = (Returns (), up)"
    by (simp add: initLoop_stop handshaking_def)
  ultimately show ?thesis
    using assms
    by (simp add: close_stat writeJSONRequestToServer_stat initSendRequest_stat
        handleSetVersionMask_stat handleConfigureResponse_def handleGetCapsResponse_stat
        SendEvent_state AddStratumSession_def addStratumSession_stat handleEvent_stat Run_def)
qed

theorem disconnected_kept_witness:
  "stat new_session = StatDisconnected
   \<and> stat (snd (close new_session)) = StatDisconnected
   \<and> initLoop (example_env example_conn auth_line) new_session = (Returns (), new_session)"
  using disconnected_kept [of new_session "example_env example_conn auth_line"]
  by (simp add: new_session_def NewUpSession_def)

text \<open>
  C6 as stated fails: a new session is in status \<open>StatDisconnected\<close>, and \<open>connect\<close>
  with a dial that succeeds leaves it in \<open>StatConnected\<close>.
\<close>

theorem disconnected_left_by_connect:
  "stat new_session = StatDisconnected
   \<and> stat (snd (connect (example_env example_conn auth_line) new_session)) = StatConnected"
  by (simp add: connect_def configuredPool_def new_session_def NewUpSession_def
      example_config_def example_env_def)

text \<open>
  The subscribe and the authorize handler assign the status without looking at it: called
  on a session that was closed they leave \<open>StatDisconnected\<close> too. The loop of \<open>Init\<close>
  does not call them in that status.
\<close>

lemma disconnected_left_by_handler:
  "stat (snd (close example_session)) = StatDisconnected
   \<and> stat (snd (handleAuthorizeResponse (response (JString ''auth'') (JBool True)) []
        (snd (close example_session)))) = StatAuthorized"
  by (simp add: close_def example_session_def handleAuthorizeResponse_def response_def
      andThen_def glog_IP_def IP_def)

section \<open>The event channel\<close>

text \<open>No operation assigns \<open>eventChannel\<close>.\<close>

lemma close_eventChannel: "eventChannel (snd (close up)) = eventChannel up"
  by (simp add: close_def Let_def split: option.splits)

lemma logclose_eventChannel:
  "eventChannel (snd (andThen glog_IP (\<lambda>_. close) up)) = eventChannel up"
  by (rule andThen_snd) (simp_all add: glog_IP_state close_eventChannel)

lemma connect_eventChannel: "eventChannel (snd (connect env up)) = eventChannel up"
  by (simp add: connect_def Let_def split: outcome.splits sum.splits prod.splits)

lemma writeJSONRequestToServer_eventChannel:
  "eventChannel (snd (writeJSONRequestToServer env request up)) = eventChannel up"
  by (simp add: writeJSONRequestToServer_def split: sum.splits option.splits prod.splits)

lemma initSendRequest_eventChannel:
  "eventChannel (snd (initSendRequest env up)) = eventChannel up"
  by (rule initSendRequest_frame) (rule writeJSONRequestToServer_eventChannel)

lemma handleSetVersionMask_eventChannel:
  "eventChannel (snd (handleSetVersionMask rpcData jsonBytes up)) = eventChannel up"
  by (simp add: handleSetVersionMask_def glog_IP_state split: json.splits sum.splits)

lemma handleSubScribeResponse_eventChannel:
  "eventChannel (snd (handleSubScribeResponse env rpcData jsonBytes up)) = eventChannel up"
  by (simp add: handleSubScribeResponse_def Let_def logclose_eventChannel
      split: json.splits sum.splits)

lemma foldl_setCapability_eventChannel:
  "eventChannel (foldl setCapability up capsArr) = eventChannel up"
  by (induction capsArr arbitrary: up) (simp_all add: setCapability_def)

lemma handleGetCapsResponse_eventChannel:
  "eventChannel (snd (handleGetCapsResponse rpcData jsonBytes up)) = eventChannel up"
  unfolding handleGetCapsResponse_def Let_def
  by (auto split: prod.splits option.splits
      intro!: andThen_snd simp: glog_IP_state returns_def foldl_setCapability_eventChannel)

lemma handleAuthorizeResponse_eventChannel:
  "eventChannel (snd (handleAuthorizeResponse rpcData jsonBytes up)) = eventChannel up"
  unfolding handleAuthorizeResponse_def Let_def
  by (auto split: prod.splits intro!: andThen_snd simp: glog_IP_state close_eventChannel)

lemma initReadExMessage_eventChannel:
  "eventChannel (snd (initReadExMessage up)) = eventChannel up"
  unfolding initReadExMessage_def Let_def
  by (simp add: logclose_eventChannel split: option.splits prod.splits outcome.splits)

lemma initReadLine_eventChannel:
  "eventChannel (snd (initReadLine env up)) = eventChannel up"
  unfolding initReadLine_def Let_def
  by (simp add: logclose_eventChannel glog_IP_state handleSetVersionMask_eventChannel
      handleSubScribeResponse_eventChannel handleConfigureResponse_def
      handleGetCapsResponse_eventChannel handleAuthorizeResponse_eventChannel
      split: option.splits prod.splits sum.splits)

lemma initHandleResponse_eventChannel:
  "eventChannel (snd (initHandleResponse env up)) = eventChannel up"
  unfolding initHandleResponse_def Let_def
  by (simp add: logclose_eventChannel initReadExMessage_eventChannel
      initReadLine_eventChannel split: option.splits prod.splits)

lemma initLoop_eventChannel: "eventChannel (snd (initLoop env up)) = eventChannel up"
proof (induction env up rule: initLoop.induct)
  case (1 env up)
  show ?case
  proof (cases "handshaking up")
    case False
    then show ?thesis by (simp add: initLoop_stop)
  next
    case True
    obtain r up' where step: "initHandleResponse env up = (r, up')"
      by (cases "initHandleResponse env up")
    with initHandleResponse_eventChannel [of env up]
    have kept: "eventChannel up' = eventChannel up" by simp
    show ?thesis
    proof (cases r)
      case (Returns u)
      with True step have "initLoop env up = initLoop env up'"
        by (simp add: initLoop_step)
      moreover from "1.IH" [OF True step [symmetric] Returns]
      have "eventChannel (snd (initLoop env up')) = eventChannel up'" .
      ultimately show ?thesis using kept by simp
    next
      case (Panics p)
      with True step kept show ?thesis by (simp add: initLoop_panic)
    next
      case Blocks
      with True step kept show ?thesis by (subst initLoop.simps) simp
    qed
  qed
qed

lemma Init_eventChannel: "eventChannel (snd (Init env up)) = eventChannel up"
  unfolding Init_def
  by (auto intro!: andThen_snd simp: connect_eventChannel glog_IP_state
      initSendRequest_eventChannel close_eventChannel initLoop_eventChannel)

lemma addStratumSession_eventChannel:
  "eventChannel (snd (addStratumSession session up)) = eventChannel up"
  by (simp add: addStratumSession_def split: option.splits)

lemma handleDelivered_eventChannel:
  "eventChannel (snd (handleDelivered events up)) = eventChannel up"
proof (induction events arbitrary: up)
  case Nil
  show ?case by simp
next
  case (Cons e events)
  show ?case
  proof (cases e)
    case (EventAddStratumSession session)
    have "eventChannel (snd (andThen (addStratumSession session) (\<lambda>_. handleDelivered events) up))
        = eventChannel up"
      by (rule andThen_snd) (simp_all add: addStratumSession_eventChannel Cons.IH)
    with EventAddStratumSession show ?thesis by simp
  next
    case OtherEvent
    with Cons.IH show ?thesis by simp
  qed
qed

lemma handleEvent_eventChannel:
  "eventChannel (snd (handleEvent events up)) = eventChannel up"
  by (simp add: handleEvent_def handleDelivered_eventChannel split: option.splits)


lemma reachable_eventChannel: "up \<in> reachable \<Longrightarrow> eventChannel up = None"
proof (induction rule: reachable.induct)
  case (new manager' config' subAccount' poolIndex')
  show ?case by (simp add: NewUpSession_def)
qed (simp_all add: connect_eventChannel writeJSONRequestToServer_eventChannel
    initSendRequest_eventChannel close_eventChannel initHandleResponse_eventChannel
    initReadExMessage_eventChannel initReadLine_eventChannel Init_eventChannel
    handleSetVersionMask_eventChannel handleSubScribeResponse_eventChannel
    handleConfigureResponse_def handleGetCapsResponse_eventChannel
    handleAuthorizeResponse_eventChannel Run_def handleEvent_eventChannel SendEvent_state
    AddStratumSession_def addStratumSession_eventChannel)

text \<open>
  C9. A session made by \<open>NewUpSession\<close> has a nil \<open>eventChannel\<close>, status
  \<open>StatDisconnected\<close> and an empty \<open>stratumSessions\<close>. Every session that the
  operations of the file produce from a new one (after \<open>connect\<close>, the handshake,
  \<open>close\<close>, in any order) still has a nil \<open>eventChannel\<close>, so \<open>SendEvent\<close> and
  \<open>AddStratumSession\<close> send on a nil channel there: they block for ever and leave the
  session as it was.
\<close>

theorem eventChannel_stays_nil:
  assumes "up \<in> reachable"
  shows "eventChannel (NewUpSession manager' config' subAccount' poolIndex') = None
       \<and> stat (NewUpSession manager' config' subAccount' poolIndex') = StatDisconnected
       \<and> stratumSessions (NewUpSession manager' config' subAccount' poolIndex') = Map.empty
       \<and> eventChannel up = None
       \<and> SendEvent event up = (Blocks, up)
       \<and> AddStratumSession session up = (Blocks, up)"
proof -
  from assms have "eventChannel up = None"
    by (rule reachable_eventChannel)
  then show ?thesis
    by (simp add: NewUpSession_def SendEvent_def AddStratumSession_def)
qed

theorem eventChannel_stays_nil_witness:
  "stat (snd (Init (example_env broken_conn auth_line) new_session)) = StatAuthorized
   \<and> eventChannel (snd (Init (example_env broken_conn auth_line) new_session)) = None
   \<and> SendEvent OtherEvent (snd (close (snd (Init (example_env broken_conn auth_line) new_session)))) =
       (Blocks, snd (close (snd (Init (example_env broken_conn auth_line) new_session))))
   \<and> AddStratumSession (Some \<lparr>ssSessionID = 1\<rparr>)
         (snd (Init (example_env broken_conn auth_line) new_session)) =
       (Blocks, snd (Init (example_env broken_conn auth_line) new_session))"
proof -
  have start: "new_session \<in> reachable"
    unfolding new_session_def by (rule reachable.new)
  then have run: "snd (Init (example_env broken_conn auth_line) new_session) \<in> reachable"
    by (rule reachable.Init)
  then have shut: "snd (close (snd (Init (example_env broken_conn auth_line) new_session))) \<in> reachable"
    by (rule reachable.close)
  from eventChannel_stays_nil [OF run, of "Some 0" "Some example_config" "''account''" 0
      OtherEvent "Some \<lparr>ssSessionID = 1\<rparr>"]
    eventChannel_stays_nil [OF shut, of "Some 0" "Some example_config" "''account''" 0
      OtherEvent "Some \<lparr>ssSessionID = 1\<rparr>"]
  show ?thesis
    by (simp add: Init_failing_writes)
qed

section \<open>The connection during the handshake\<close>

text \<open>
  The theorems on the handlers suppose a session with a connection. That is the session
  they are called on: \<open>Init\<close> goes on only after \<open>connect\<close> returned nil, which leaves
  a connection, and no step of the handshake makes \<open>serverConn\<close> nil again.
\<close>

lemma connect_Returns_nil:
  "connect env up = (Returns None, up') \<Longrightarrow> serverConn up' \<noteq> None \<and> stat up' = StatConnected"
  by (auto simp: connect_def Let_def split: outcome.splits sum.splits prod.splits)

lemma close_conn_nil: "(serverConn (snd (close up)) = None) = (serverConn up = None)"
  by (simp add: close_def Let_def split: option.splits)

lemma logclose_conn_nil:
  "(serverConn (snd (andThen glog_IP (\<lambda>_. close) up)) = None) = (serverConn up = None)"
  by (rule andThen_snd) (simp_all add: glog_IP_state close_conn_nil)

lemma writeJSONRequestToServer_conn_nil:
  "(serverConn (snd (writeJSONRequestToServer env request up)) = None) = (serverConn up = None)"
  by (simp add: writeJSONRequestToServer_def split: sum.splits option.splits prod.splits)

lemma initSendRequest_conn_nil:
  "(serverConn (snd (initSendRequest env up)) = None) = (serverConn up = None)"
  by (rule initSendRequest_frame) (rule writeJSONRequestToServer_conn_nil)

lemma handleSetVersionMask_conn:
  "serverConn (snd (handleSetVersionMask rpcData jsonBytes up)) = serverConn up"
  by (simp add: handleSetVersionMask_def glog_IP_state split: json.splits sum.splits)

lemma handleSubScribeResponse_conn_nil:
  "(serverConn (snd (handleSubScribeResponse env rpcData jsonBytes up)) = None)
     = (serverConn up = None)"
  by (simp add: handleSubScribeResponse_def Let_def logclose_conn_nil
      split: json.splits sum.splits)

lemma handleAuthorizeResponse_conn_nil:
  "(serverConn (snd (handleAuthorizeResponse rpcData jsonBytes up)) = None)
     = (serverConn up = None)"
  unfolding handleAuthorizeResponse_def Let_def
  by (auto split: prod.splits intro!: andThen_snd simp: glog_IP_state close_conn_nil)

lemma initReadExMessage_conn_nil:
  "(serverConn (snd (initReadExMessage up)) = None) = (serverConn up = None)"
  unfolding initReadExMessage_def Let_def
  by (simp add: logclose_conn_nil split: option.splits prod.splits outcome.splits)

lemma initReadLine_conn_nil:
  "(serverConn (snd (initReadLine env up)) = None) = (serverConn up = None)"
  unfolding initReadLine_def Let_def
  by (simp add: logclose_conn_nil glog_IP_state handleSetVersionMask_conn
      handleSubScribeResponse_conn_nil handleConfigureResponse_def
      handleGetCapsResponse_conn handleAuthorizeResponse_conn_nil
      split: option.splits prod.splits sum.splits)

lemma initHandleResponse_conn_nil:
  "(serverConn (snd (initHandleResponse env up)) = None) = (serverConn up = None)"
  unfolding initHandleResponse_def Let_def
  by (simp add: logclose_conn_nil initReadExMessage_conn_nil initReadLine_conn_nil
      split: option.splits prod.splits)

end
